theory Spec2Isabelle
  imports Main "HOL-Library.Word"
begin

section \<open>SqliteEncryption: the wrappers of cspro/SQLite/Encryption.h\<close>

text \<open>
  The header wraps the two key primitives of the SQLite Encryption Extension (SEE). Which
  body each function of the namespace has is decided by the preprocessor: one body when the
  macro \<open>SQLITE_HAS_CODEC\<close> is defined, another when it is not. The embedding takes the
  build as an argument, so that both variants of every function are one HOL function and
  the two builds can be compared.
\<close>

subsection \<open>The build\<close>

text \<open>The macros a translation unit is compiled with: only one is tested by the header.
  The field is True when the macro is defined.\<close>

record build =
  SQLITE_HAS_CODEC :: bool

subsection \<open>Values\<close>

text \<open>A pointer (\<open>sqlite3*\<close>, \<open>const void*\<close>) is null or an address. The header never
  dereferences one, so nothing is said about what an address holds.\<close>

datatype pointer = nullptr | Address nat

text \<open>The C++ \<open>int\<close> of the status codes and of the key length.\<close>

type_synonym c_int = "32 word"

text \<open>Modelled from the spec: the class \<open>CSProException\<close> is declared outside
  Encryption.h. The header only constructs it from a message, and the spec names the error
  by its fixed, human-readable message, so an exception is the message it was built from.\<close>

datatype exn = CSProException string

text \<open>What a call does: it returns an \<open>int\<close> (\<open>Inr\<close>) or throws (\<open>Inl\<close>), and
  leaves the world outside the namespace (the connections of the database engine, the
  caller's memory) in some state \<open>'w\<close>.\<close>

type_synonym 'w outcome = "(exn + c_int) \<times> 'w"

subsection \<open>The external codec\<close>

text \<open>The global functions \<open>::sqlite3_key\<close> and \<open>::sqlite3_rekey\<close> are declared by
  external/SQLite/sqlite3.h and implemented by the closed-source extension. They are
  parameters of the embedding: each is a C function of the connection, the key bytes and
  the key length that returns a status code and may change the world.\<close>

record 'w codec =
  ext_sqlite3_key :: "pointer \<Rightarrow> pointer \<Rightarrow> c_int \<Rightarrow> 'w \<Rightarrow> c_int \<times> 'w"
  ext_sqlite3_rekey :: "pointer \<Rightarrow> pointer \<Rightarrow> c_int \<Rightarrow> 'w \<Rightarrow> c_int \<times> 'w"

subsection \<open>namespace SqliteEncryption\<close>

definition NoSeeExceptionMessage :: string where
  "NoSeeExceptionMessage = ''SQLite encryption is not enabled in this CSPro build.''"

text \<open>\<open>constexpr bool IsEnabled()\<close>: no parameter, no statement but the \<open>return\<close> the
  preprocessor keeps.\<close>

definition IsEnabled :: "build \<Rightarrow> bool" where
  "IsEnabled b = (if SQLITE_HAS_CODEC b then True else False)"

text \<open>\<open>inline int sqlite3_key(sqlite3* db, const void* pKey, int nKey)\<close>. Without the
  macro the body is the three expression statements \<open>db;pKey;nKey;\<close>, which name the
  parameters and do nothing, and the \<open>throw\<close>.\<close>

definition sqlite3_key ::
  "build \<Rightarrow> 'w codec \<Rightarrow> pointer \<Rightarrow> pointer \<Rightarrow> c_int \<Rightarrow> 'w \<Rightarrow> 'w outcome" where
  "sqlite3_key b codec db pKey nKey w =
     (if SQLITE_HAS_CODEC b then
        (case ext_sqlite3_key codec db pKey nKey w of (rc, w') \<Rightarrow> (Inr rc, w'))
      else (Inl (CSProException NoSeeExceptionMessage), w))"

text \<open>\<open>inline int sqlite3_rekey(sqlite3* db, const void* pKey, int nKey)\<close>.\<close>

definition sqlite3_rekey ::
  "build \<Rightarrow> 'w codec \<Rightarrow> pointer \<Rightarrow> pointer \<Rightarrow> c_int \<Rightarrow> 'w \<Rightarrow> 'w outcome" where
  "sqlite3_rekey b codec db pKey nKey w =
     (if SQLITE_HAS_CODEC b then
        (case ext_sqlite3_rekey codec db pKey nKey w of (rc, w') \<Rightarrow> (Inr rc, w'))
      else (Inl (CSProException NoSeeExceptionMessage), w))"

subsection \<open>A recording codec\<close>

text \<open>A test double for the external codec, as the spec's testable properties describe it:
  its world is the list of the calls it has received, each with its arguments, and every
  call answers a fixed status code. The theorems below hold for every codec; this
  one is the concrete codec they are evaluated on.\<close>

datatype call =
  KeyCall pointer pointer c_int
| RekeyCall pointer pointer c_int

definition recording_codec :: "c_int \<Rightarrow> call list codec" where
  "recording_codec sentinel =
     \<lparr> ext_sqlite3_key = (\<lambda>db pKey nKey calls. (sentinel, calls @ [KeyCall db pKey nKey])),
       ext_sqlite3_rekey = (\<lambda>db pKey nKey calls. (sentinel, calls @ [RekeyCall db pKey nKey])) \<rparr>"

text \<open>The two builds.\<close>

definition build_without_codec :: build where
  "build_without_codec = \<lparr> SQLITE_HAS_CODEC = False \<rparr>"

definition build_with_codec :: build where
  "build_with_codec = \<lparr> SQLITE_HAS_CODEC = True \<rparr>"

section \<open>The two bodies of each wrapper\<close>

lemma sqlite3_key_disabled:
  "\<not> SQLITE_HAS_CODEC b \<Longrightarrow>
     sqlite3_key b codec db pKey nKey w = (Inl (CSProException NoSeeExceptionMessage), w)"
  by (simp add: sqlite3_key_def)

lemma sqlite3_rekey_disabled:
  "\<not> SQLITE_HAS_CODEC b \<Longrightarrow>
     sqlite3_rekey b codec db pKey nKey w = (Inl (CSProException NoSeeExceptionMessage), w)"
  by (simp add: sqlite3_rekey_def)

lemma sqlite3_key_enabled:
  "SQLITE_HAS_CODEC b \<Longrightarrow>
     sqlite3_key b codec db pKey nKey w =
       (Inr (fst (ext_sqlite3_key codec db pKey nKey w)),
        snd (ext_sqlite3_key codec db pKey nKey w))"
  by (simp add: sqlite3_key_def split: prod.split)

lemma sqlite3_rekey_enabled:
  "SQLITE_HAS_CODEC b \<Longrightarrow>
     sqlite3_rekey b codec db pKey nKey w =
       (Inr (fst (ext_sqlite3_rekey codec db pKey nKey w)),
        snd (ext_sqlite3_rekey codec db pKey nKey w))"
  by (simp add: sqlite3_rekey_def split: prod.split)

lemma recording_codec_key [simp]:
  "ext_sqlite3_key (recording_codec s) db pKey nKey calls = (s, calls @ [KeyCall db pKey nKey])"
  by (simp add: recording_codec_def)

lemma recording_codec_rekey [simp]:
  "ext_sqlite3_rekey (recording_codec s) db pKey nKey calls =
     (s, calls @ [RekeyCall db pKey nKey])"
  by (simp add: recording_codec_def)

lemma builds_codec [simp]:
  "SQLITE_HAS_CODEC build_with_codec" "\<not> SQLITE_HAS_CODEC build_without_codec"
  by (simp_all add: build_with_codec_def build_without_codec_def)

section \<open>The build without the codec\<close>

text \<open>
  C1. In a build without the codec (\<open>SQLITE_HAS_CODEC\<close> not defined), \<open>sqlite3_key\<close> and
  \<open>sqlite3_rekey\<close> throw the CSProException of the unavailable encryption for all
  arguments, a null connection and a null or empty key included. The external codec is
  never called: the world is returned as it was, and the outcome is the same whatever
  the codec and whatever the arguments (\<open>codec'\<close>, \<open>db'\<close>, \<open>pKey'\<close>, \<open>nKey'\<close> are any
  other ones).
\<close>

theorem unavailable_always_throws:
  assumes "\<not> SQLITE_HAS_CODEC b"
  shows "sqlite3_key b codec db pKey nKey w = (Inl (CSProException NoSeeExceptionMessage), w)
       \<and> sqlite3_rekey b codec db pKey nKey w = (Inl (CSProException NoSeeExceptionMessage), w)
       \<and> sqlite3_key b codec db pKey nKey w = sqlite3_key b codec' db' pKey' nKey' w
       \<and> sqlite3_rekey b codec db pKey nKey w = sqlite3_rekey b codec' db' pKey' nKey' w"
  using assms by (simp add: sqlite3_key_disabled sqlite3_rekey_disabled)

text \<open>On the recording codec, with a null connection, a null key and length 0: the
  exception is thrown and no call is recorded. A connection and a key of 16 bytes give
  the same outcome.\<close>

theorem unavailable_always_throws_witness:
  "\<not> SQLITE_HAS_CODEC build_without_codec
   \<and> sqlite3_key build_without_codec (recording_codec 0) nullptr nullptr 0 []
       = (Inl (CSProException NoSeeExceptionMessage), [])
   \<and> sqlite3_rekey build_without_codec (recording_codec 0) nullptr nullptr 0 []
       = (Inl (CSProException NoSeeExceptionMessage), [])
   \<and> sqlite3_key build_without_codec (recording_codec 0) nullptr nullptr 0 []
       = sqlite3_key build_without_codec (recording_codec 7) (Address 4096) (Address 8192) 16 []
   \<and> sqlite3_rekey build_without_codec (recording_codec 0) nullptr nullptr 0 []
       = sqlite3_rekey build_without_codec (recording_codec 7) (Address 4096) (Address 8192) 16 []"
  using unavailable_always_throws [of build_without_codec "recording_codec 0" nullptr nullptr 0
      "[]" "recording_codec 7" "Address 4096" "Address 8192" 16]
  by (simp add: sqlite3_key_def sqlite3_rekey_def)

text \<open>
  C4. Without the codec the failure is atomic: for every codec, all arguments and every
  world, the world after \<open>sqlite3_key\<close> and after \<open>sqlite3_rekey\<close> is the world before the
  call (the connection and the key buffer are part of it), and the exception is thrown
  without a call of either external primitive having changed anything.
\<close>

theorem unavailable_leaves_world:
  assumes "\<not> SQLITE_HAS_CODEC b"
  shows "snd (sqlite3_key b codec db pKey nKey w) = w
       \<and> snd (sqlite3_rekey b codec db pKey nKey w) = w
       \<and> isl (fst (sqlite3_key b codec db pKey nKey w))
       \<and> isl (fst (sqlite3_rekey b codec db pKey nKey w))"
  using assms by (simp add: sqlite3_key_disabled sqlite3_rekey_disabled)

text \<open>The recording codec has recorded one earlier call; the failing calls add none.\<close>

theorem unavailable_leaves_world_witness:
  "\<not> SQLITE_HAS_CODEC build_without_codec
   \<and> snd (sqlite3_key build_without_codec (recording_codec 0) (Address 4096) (Address 8192) 16
        [RekeyCall nullptr nullptr 0]) = [RekeyCall nullptr nullptr 0]
   \<and> snd (sqlite3_rekey build_without_codec (recording_codec 0) (Address 4096) (Address 8192) 16
        [RekeyCall nullptr nullptr 0]) = [RekeyCall nullptr nullptr 0]"
  using unavailable_leaves_world [of build_without_codec "recording_codec 0" "Address 4096"
      "Address 8192" 16 "[RekeyCall nullptr nullptr 0]"]
  by (simp add: sqlite3_key_def sqlite3_rekey_def)

text \<open>
  C6. Without the codec the exception of \<open>sqlite3_key\<close> and of \<open>sqlite3_rekey\<close> carries,
  on every call, the one constant \<open>NoSeeExceptionMessage\<close>, whose text says that SQLite
  encryption is not enabled in this CSPro build.
\<close>

theorem unavailable_message_fixed:
  assumes "\<not> SQLITE_HAS_CODEC b"
  shows "fst (sqlite3_key b codec db pKey nKey w)
           = Inl (CSProException ''SQLite encryption is not enabled in this CSPro build.'')
       \<and> fst (sqlite3_rekey b codec' db' pKey' nKey' w')
           = Inl (CSProException ''SQLite encryption is not enabled in this CSPro build.'')
       \<and> NoSeeExceptionMessage = ''SQLite encryption is not enabled in this CSPro build.''"
  using assms
  by (simp add: sqlite3_key_disabled sqlite3_rekey_disabled NoSeeExceptionMessage_def)

theorem unavailable_message_fixed_witness:
  "\<not> SQLITE_HAS_CODEC build_without_codec
   \<and> fst (sqlite3_key build_without_codec (recording_codec 0) nullptr (Address 8192) 32 [])
       = Inl (CSProException ''SQLite encryption is not enabled in this CSPro build.'')
   \<and> fst (sqlite3_rekey build_without_codec (recording_codec 1) (Address 4096) nullptr 0
            [KeyCall nullptr nullptr 0])
       = Inl (CSProException ''SQLite encryption is not enabled in this CSPro build.'')"
  using unavailable_message_fixed [of build_without_codec "recording_codec 0" nullptr
      "Address 8192" 32 "[]" "recording_codec 1" "Address 4096" nullptr 0
      "[KeyCall nullptr nullptr 0]"]
  by (simp add: sqlite3_key_def sqlite3_rekey_def NoSeeExceptionMessage_def)

text \<open>
  C10. Without the codec neither \<open>sqlite3_key\<close> nor \<open>sqlite3_rekey\<close> returns normally, for
  any input: no status code \<open>rc\<close> is the result of a call, so no value of the declared
  \<open>int\<close> result stands for the unavailable encryption, which only the exception reports.
\<close>

theorem unavailable_never_returns:
  assumes "\<not> SQLITE_HAS_CODEC b"
  shows "fst (sqlite3_key b codec db pKey nKey w) \<noteq> Inr rc
       \<and> fst (sqlite3_rekey b codec db pKey nKey w) \<noteq> Inr rc"
  using assms by (simp add: sqlite3_key_disabled sqlite3_rekey_disabled)

theorem unavailable_never_returns_witness:
  "\<not> SQLITE_HAS_CODEC build_without_codec
   \<and> fst (sqlite3_key build_without_codec (recording_codec 0) (Address 4096) (Address 8192) 16 [])
       \<noteq> Inr 0
   \<and> fst (sqlite3_rekey build_without_codec (recording_codec 0) (Address 4096) (Address 8192) 16 [])
       \<noteq> Inr 0"
  using unavailable_never_returns [of build_without_codec "recording_codec 0" "Address 4096"
      "Address 8192" 16 "[]" 0]
  by (simp add: sqlite3_key_def sqlite3_rekey_def)

section \<open>The build with the codec\<close>

text \<open>
  C2. With the codec compiled in, for every connection, key pointer and key length,
  \<open>sqlite3_key\<close> is one call of the external \<open>::sqlite3_key\<close> on exactly these three
  arguments: it returns the status code of that call and leaves the world that call
  leaves. \<open>sqlite3_rekey\<close> is the same with the external \<open>::sqlite3_rekey\<close>. On the recording
  codec the call recorded is the one with the wrapper's arguments, and the sentinel comes
  back.
\<close>

theorem enabled_forwards_verbatim:
  assumes "SQLITE_HAS_CODEC b"
  shows "sqlite3_key b codec db pKey nKey w =
           (Inr (fst (ext_sqlite3_key codec db pKey nKey w)),
            snd (ext_sqlite3_key codec db pKey nKey w))
       \<and> sqlite3_rekey b codec db pKey nKey w =
           (Inr (fst (ext_sqlite3_rekey codec db pKey nKey w)),
            snd (ext_sqlite3_rekey codec db pKey nKey w))
       \<and> sqlite3_key b (recording_codec s) db pKey nKey calls =
           (Inr s, calls @ [KeyCall db pKey nKey])
       \<and> sqlite3_rekey b (recording_codec s) db pKey nKey calls =
           (Inr s, calls @ [RekeyCall db pKey nKey])"
  using assms by (simp add: sqlite3_key_enabled sqlite3_rekey_enabled)

theorem enabled_forwards_verbatim_witness:
  "SQLITE_HAS_CODEC build_with_codec
   \<and> sqlite3_key build_with_codec (recording_codec 42) (Address 4096) (Address 8192) 16 []
       = (Inr 42, [KeyCall (Address 4096) (Address 8192) 16])
   \<and> sqlite3_rekey build_with_codec (recording_codec 42) (Address 4096) (Address 8192) 16 []
       = (Inr 42, [RekeyCall (Address 4096) (Address 8192) 16])"
  using enabled_forwards_verbatim [of build_with_codec "recording_codec 42" "Address 4096"
      "Address 8192" 16 "[]" 42 "[]"]
  by (simp add: sqlite3_key_def sqlite3_rekey_def)

text \<open>
  C5. The exception of the unavailable encryption is the only error of the namespace. With
  the codec compiled in neither wrapper throws, for any input: the result is the status
  code of the external primitive, the same 32-bit value, whatever it is. In any build, an
  exception thrown by a wrapper is the one built from \<open>NoSeeExceptionMessage\<close>, in a build
  without the codec.
\<close>

theorem only_error_is_unavailable:
  "(SQLITE_HAS_CODEC b \<longrightarrow>
      fst (sqlite3_key b codec db pKey nKey w) = Inr (fst (ext_sqlite3_key codec db pKey nKey w))
    \<and> fst (sqlite3_rekey b codec db pKey nKey w)
        = Inr (fst (ext_sqlite3_rekey codec db pKey nKey w)))
   \<and> (fst (sqlite3_key b codec db pKey nKey w) = Inl e \<longrightarrow>
        e = CSProException NoSeeExceptionMessage \<and> \<not> SQLITE_HAS_CODEC b)
   \<and> (fst (sqlite3_rekey b codec db pKey nKey w) = Inl e \<longrightarrow>
        e = CSProException NoSeeExceptionMessage \<and> \<not> SQLITE_HAS_CODEC b)"
  by (cases "SQLITE_HAS_CODEC b")
    (auto simp add: sqlite3_key_enabled sqlite3_rekey_enabled
      sqlite3_key_disabled sqlite3_rekey_disabled)

text \<open>A codec that answers the status code 26 (a failure of the engine): with the codec
  the wrappers return 26 and throw nothing; without it the exception thrown is the one of
  the unavailable encryption.\<close>

theorem only_error_is_unavailable_witness:
  "SQLITE_HAS_CODEC build_with_codec
   \<and> fst (sqlite3_key build_with_codec (recording_codec 26) (Address 4096) (Address 8192) 16 [])
       = Inr 26
   \<and> fst (sqlite3_rekey build_with_codec (recording_codec 26) (Address 4096) (Address 8192) 16 [])
       = Inr 26
   \<and> fst (sqlite3_key build_without_codec (recording_codec 26) (Address 4096) (Address 8192) 16 [])
       = Inl (CSProException NoSeeExceptionMessage)
   \<and> fst (sqlite3_rekey build_without_codec (recording_codec 26) (Address 4096) (Address 8192) 16 [])
       = Inl (CSProException NoSeeExceptionMessage)
   \<and> \<not> SQLITE_HAS_CODEC build_without_codec"
  using only_error_is_unavailable [of build_with_codec "recording_codec 26" "Address 4096"
      "Address 8192" 16 "[]"]
    only_error_is_unavailable [of build_without_codec "recording_codec 26" "Address 4096"
      "Address 8192" 16 "[]" "CSProException NoSeeExceptionMessage"]
  by (simp add: sqlite3_key_def sqlite3_rekey_def)

section \<open>Both builds\<close>

text \<open>
  C3. \<open>IsEnabled\<close> is a constant of the build: it is true in a build with
  \<open>SQLITE_HAS_CODEC\<close> defined and false in a build without it. It has no argument but the
  build, so no input of a caller and no state is read; its value is a \<open>bool\<close>, so it
  returns in every build and changes nothing.
\<close>

theorem IsEnabled_is_build_constant:
  "IsEnabled b = SQLITE_HAS_CODEC b"
  by (simp add: IsEnabled_def)

theorem IsEnabled_is_build_constant_witness:
  "IsEnabled build_with_codec = True \<and> IsEnabled build_without_codec = False"
  using IsEnabled_is_build_constant [of build_with_codec]
    IsEnabled_is_build_constant [of build_without_codec]
  by (simp add: build_with_codec_def build_without_codec_def)

text \<open>
  C7. \<open>sqlite3_rekey\<close> is \<open>sqlite3_key\<close> but for the external primitive it forwards to: in
  every build, \<open>sqlite3_rekey\<close> on a codec is \<open>sqlite3_key\<close> on the codec whose key-set
  primitive is replaced by its re-key primitive, and the other way round. Without the
  codec no primitive is called, and the two functions agree on every argument tuple.
\<close>

theorem rekey_same_contract_as_key:
  "sqlite3_rekey b codec db pKey nKey w =
     sqlite3_key b (codec\<lparr>ext_sqlite3_key := ext_sqlite3_rekey codec\<rparr>) db pKey nKey w
   \<and> sqlite3_key b codec db pKey nKey w =
     sqlite3_rekey b (codec\<lparr>ext_sqlite3_rekey := ext_sqlite3_key codec\<rparr>) db pKey nKey w
   \<and> (\<not> SQLITE_HAS_CODEC b \<longrightarrow>
        sqlite3_rekey b codec db pKey nKey w = sqlite3_key b codec db pKey nKey w)"
  by (simp add: sqlite3_key_def sqlite3_rekey_def)

text \<open>Without the codec the two wrappers give the same failure; with it, \<open>sqlite3_rekey\<close>
  is the call of the re-key primitive that \<open>sqlite3_key\<close> makes once that primitive stands
  in the key-set place.\<close>

theorem rekey_same_contract_as_key_witness:
  "\<not> SQLITE_HAS_CODEC build_without_codec
   \<and> sqlite3_rekey build_without_codec (recording_codec 42) (Address 4096) (Address 8192) 16 []
       = sqlite3_key build_without_codec (recording_codec 42) (Address 4096) (Address 8192) 16 []
   \<and> sqlite3_key build_with_codec
         ((recording_codec 42)\<lparr>ext_sqlite3_key := ext_sqlite3_rekey (recording_codec 42)\<rparr>)
         (Address 4096) (Address 8192) 16 []
       = (Inr 42, [RekeyCall (Address 4096) (Address 8192) 16])"
  using rekey_same_contract_as_key [of build_without_codec "recording_codec 42" "Address 4096"
      "Address 8192" 16 "[]"]
    rekey_same_contract_as_key [of build_with_codec "recording_codec 42" "Address 4096"
      "Address 8192" 16 "[]"]
  by (simp add: sqlite3_key_def sqlite3_rekey_def)

text \<open>
  C8. The namespace keeps no state, and every call stands alone. In any build, two calls of
  a wrapper with the same arguments, in any two worlds \<open>w1\<close> and \<open>w2\<close> (whatever calls came
  before), have the same result as soon as the external primitive answers the same status
  code in both; without the codec they have the same result outright. An earlier call
  through a wrapper leaves nothing behind for a later one: a later call sees the world the
  external primitive left (the world as it was, without the codec), as if the earlier call
  had been made on the codec directly.
\<close>

theorem calls_are_independent:
  "(fst (ext_sqlite3_key codec db pKey nKey w1) = fst (ext_sqlite3_key codec db pKey nKey w2) \<longrightarrow>
      fst (sqlite3_key b codec db pKey nKey w1) = fst (sqlite3_key b codec db pKey nKey w2))
   \<and> (fst (ext_sqlite3_rekey codec db pKey nKey w1) = fst (ext_sqlite3_rekey codec db pKey nKey w2) \<longrightarrow>
      fst (sqlite3_rekey b codec db pKey nKey w1) = fst (sqlite3_rekey b codec db pKey nKey w2))
   \<and> (\<not> SQLITE_HAS_CODEC b \<longrightarrow>
        fst (sqlite3_key b codec db pKey nKey w1) = fst (sqlite3_key b codec db pKey nKey w2)
      \<and> fst (sqlite3_rekey b codec db pKey nKey w1) = fst (sqlite3_rekey b codec db pKey nKey w2))
   \<and> snd (sqlite3_key b codec db' pKey' nKey' w) =
       (if SQLITE_HAS_CODEC b then snd (ext_sqlite3_key codec db' pKey' nKey' w) else w)
   \<and> snd (sqlite3_rekey b codec db' pKey' nKey' w) =
       (if SQLITE_HAS_CODEC b then snd (ext_sqlite3_rekey codec db' pKey' nKey' w) else w)"
  by (cases "SQLITE_HAS_CODEC b")
    (simp_all add: sqlite3_key_enabled sqlite3_rekey_enabled
      sqlite3_key_disabled sqlite3_rekey_disabled)

text \<open>The same call of a wrapper first, and after an earlier \<open>sqlite3_rekey\<close> with other
  arguments: with the codec both return the sentinel, without it both throw.\<close>

theorem calls_are_independent_witness:
  "sqlite3_rekey build_with_codec (recording_codec 42) nullptr nullptr 0 []
     = (Inr 42, [RekeyCall nullptr nullptr 0])
   \<and> fst (ext_sqlite3_key (recording_codec 42) (Address 4096) (Address 8192) 16 [])
     = fst (ext_sqlite3_key (recording_codec 42) (Address 4096) (Address 8192) 16
         [RekeyCall nullptr nullptr 0])
   \<and> fst (sqlite3_key build_with_codec (recording_codec 42) (Address 4096) (Address 8192) 16 [])
     = fst (sqlite3_key build_with_codec (recording_codec 42) (Address 4096) (Address 8192) 16
         [RekeyCall nullptr nullptr 0])
   \<and> fst (ext_sqlite3_rekey (recording_codec 42) (Address 4096) (Address 8192) 16 [])
     = fst (ext_sqlite3_rekey (recording_codec 42) (Address 4096) (Address 8192) 16
         [RekeyCall nullptr nullptr 0])
   \<and> fst (sqlite3_rekey build_with_codec (recording_codec 42) (Address 4096) (Address 8192) 16 [])
     = fst (sqlite3_rekey build_with_codec (recording_codec 42) (Address 4096) (Address 8192) 16
         [RekeyCall nullptr nullptr 0])
   \<and> \<not> SQLITE_HAS_CODEC build_without_codec
   \<and> fst (sqlite3_key build_without_codec (recording_codec 42) (Address 4096) (Address 8192) 16 [])
     = fst (sqlite3_key build_without_codec (recording_codec 42) (Address 4096) (Address 8192) 16
         (snd (sqlite3_rekey build_without_codec (recording_codec 42) nullptr nullptr 0 [])))"
  using calls_are_independent [of "recording_codec 42" "Address 4096" "Address 8192" 16 "[]"
      "[RekeyCall nullptr nullptr 0]" build_with_codec]
    calls_are_independent [of "recording_codec 42" "Address 4096" "Address 8192" 16 "[]"
      "snd (sqlite3_rekey build_without_codec (recording_codec 42) nullptr nullptr 0 [])"
      build_without_codec]
  by (simp add: sqlite3_key_def sqlite3_rekey_def)

text \<open>
  C9. One switch governs the three entry points. In every build and for every input,
  \<open>sqlite3_key\<close> and \<open>sqlite3_rekey\<close> throw the exception of the unavailable encryption
  exactly when \<open>IsEnabled\<close> is false, and forward to the external primitive exactly
  when \<open>IsEnabled\<close> is true. When \<open>IsEnabled\<close> is true a wrapper is the one call of its
  primitive: the status code and the world of that call. When \<open>IsEnabled\<close> is false the
  primitive is not reached: the exception comes with the world as it was before the call,
  the same for any other codec \<open>codec'\<close>, so nothing a primitive does shows in the outcome.
\<close>

theorem IsEnabled_consistent_with_wrappers:
  "(fst (sqlite3_key b codec db pKey nKey w) = Inl (CSProException NoSeeExceptionMessage))
     = (\<not> IsEnabled b)
   \<and> (fst (sqlite3_rekey b codec db pKey nKey w) = Inl (CSProException NoSeeExceptionMessage))
     = (\<not> IsEnabled b)
   \<and> (sqlite3_key b codec db pKey nKey w =
        (Inr (fst (ext_sqlite3_key codec db pKey nKey w)),
         snd (ext_sqlite3_key codec db pKey nKey w)))
     = IsEnabled b
   \<and> (sqlite3_rekey b codec db pKey nKey w =
        (Inr (fst (ext_sqlite3_rekey codec db pKey nKey w)),
         snd (ext_sqlite3_rekey codec db pKey nKey w)))
     = IsEnabled b
   \<and> sqlite3_key b codec db pKey nKey w =
       (if IsEnabled b
        then (Inr (fst (ext_sqlite3_key codec db pKey nKey w)),
              snd (ext_sqlite3_key codec db pKey nKey w))
        else (Inl (CSProException NoSeeExceptionMessage), w))
   \<and> sqlite3_rekey b codec db pKey nKey w =
       (if IsEnabled b
        then (Inr (fst (ext_sqlite3_rekey codec db pKey nKey w)),
              snd (ext_sqlite3_rekey codec db pKey nKey w))
        else (Inl (CSProException NoSeeExceptionMessage), w))
   \<and> (snd (sqlite3_key b codec db pKey nKey w) = w
        \<and> sqlite3_key b codec db pKey nKey w = sqlite3_key b codec' db pKey nKey w
      \<or> IsEnabled b)
   \<and> (snd (sqlite3_rekey b codec db pKey nKey w) = w
        \<and> sqlite3_rekey b codec db pKey nKey w = sqlite3_rekey b codec' db pKey nKey w
      \<or> IsEnabled b)"
  by (cases "SQLITE_HAS_CODEC b")
    (simp_all add: IsEnabled_def sqlite3_key_enabled sqlite3_rekey_enabled
      sqlite3_key_disabled sqlite3_rekey_disabled)

text \<open>On the recording codec: without the codec both wrappers throw and the list of recorded
  calls stays empty, whatever the codec would answer; with the codec each wrapper records
  the one call of its primitive and returns the sentinel.\<close>

theorem IsEnabled_consistent_with_wrappers_witness:
  "\<not> IsEnabled build_without_codec
   \<and> sqlite3_key build_without_codec (recording_codec 42) (Address 4096) (Address 8192) 16 []
       = (Inl (CSProException NoSeeExceptionMessage), [])
   \<and> sqlite3_rekey build_without_codec (recording_codec 42) (Address 4096) (Address 8192) 16 []
       = (Inl (CSProException NoSeeExceptionMessage), [])
   \<and> sqlite3_key build_without_codec (recording_codec 42) (Address 4096) (Address 8192) 16 []
       = sqlite3_key build_without_codec (recording_codec 7) (Address 4096) (Address 8192) 16 []
   \<and> sqlite3_rekey build_without_codec (recording_codec 42) (Address 4096) (Address 8192) 16 []
       = sqlite3_rekey build_without_codec (recording_codec 7) (Address 4096) (Address 8192) 16 []
   \<and> IsEnabled build_with_codec
   \<and> sqlite3_key build_with_codec (recording_codec 42) (Address 4096) (Address 8192) 16 []
       = (Inr 42, [KeyCall (Address 4096) (Address 8192) 16])
   \<and> sqlite3_rekey build_with_codec (recording_codec 42) (Address 4096) (Address 8192) 16 []
       = (Inr 42, [RekeyCall (Address 4096) (Address 8192) 16])"
  using IsEnabled_consistent_with_wrappers [of build_without_codec "recording_codec 42"
      "Address 4096" "Address 8192" 16 "[]" "recording_codec 7"]
    IsEnabled_consistent_with_wrappers [of build_with_codec "recording_codec 42"
      "Address 4096" "Address 8192" 16 "[]"]
  by (simp add: IsEnabled_def sqlite3_key_def sqlite3_rekey_def)

end
